theory Spec2Isabelle
  imports Main "HOL-Library.Word"
begin

section \<open>Interaction replies in disgo: the response state, the responder, the dispatch\<close>

text \<open>
  The development follows two files: \<^verbatim>\<open>events/interaction_events.go\<close> (the response
  state and the interaction events with their reply methods) and the handler file with
  \<^verbatim>\<open>respond\<close> and \<^verbatim>\<open>handleInteraction\<close>.

  The model is the execution of one goroutine. Go pointers are addresses into an
  explicit heap, so that sharing one \<^verbatim>\<open>*InteractionResponseState\<close> between events, and
  the copy that \<^verbatim>\<open>ResponseType()\<close> returns, are visible. A nil pointer is \<open>None\<close>. The
  mutex \<^verbatim>\<open>Mu\<close> is free whenever a method is entered and every method releases it before
  it returns (\<^verbatim>\<open>defer\<close>), so the lock has no field in the model. What happens while
  \<^verbatim>\<open>respond\<close> waits for its outbound call, the lock not held, is part of the outbound
  call itself: a transport is a function that may change the heap.
\<close>

subsection \<open>Values of the discord and rest packages\<close>

text \<open>\<^verbatim>\<open>snowflake.ID\<close> is a \<^verbatim>\<open>uint64\<close>; \<^verbatim>\<open>discord.InteractionResponseType\<close> is an \<^verbatim>\<open>int\<close>,
  never used in arithmetic here. \<^verbatim>\<open>rest.RequestOpt\<close> values are only passed on.\<close>

type_synonym snowflake = "64 word"
type_synonym InteractionResponseType = int
typedecl RequestOpt
type_synonym AutocompleteChoice = string

text \<open>The constants of package \<^verbatim>\<open>discord\<close> that the two files name are declared outside
  them; the functions below take them as a parameter.\<close>

record discord =
  InteractionResponseTypeAcknowledge :: InteractionResponseType
  InteractionResponseTypeDeferredCreateMessage :: InteractionResponseType
  InteractionResponseTypeDeferredUpdateMessage :: InteractionResponseType
  InteractionResponseTypeAutocompleteResult :: InteractionResponseType

text \<open>\<^verbatim>\<open>discord.InteractionResponseData\<close> is an interface; the only implementation that the
  modelled methods build is \<^verbatim>\<open>discord.AutocompleteResult{Choices: choices}\<close>. The nil
  interface value is \<open>None\<close>.\<close>

datatype InteractionResponseData =
    AutocompleteResult (Choices: "AutocompleteChoice list")
  | OtherData string

record InteractionResponse =
  Type :: InteractionResponseType
  Data :: "InteractionResponseData option"

text \<open>A Go \<^verbatim>\<open>error\<close> value (nil is \<open>None\<close>) and a run-time panic.\<close>

datatype error = ErrInteractionAlreadyReplied | OtherError string

datatype panic = InvalidMemoryAddress

subsection \<open>The heap\<close>

type_synonym ptr = nat

record InteractionResponseState =
  ResponseTypeValue :: "ptr option"

text \<open>Two address spaces, one per pointee type: \<open>cells\<close> holds the
  \<^verbatim>\<open>InteractionResponseType\<close> variables that escape to the heap, \<open>states\<close> the
  \<^verbatim>\<open>InteractionResponseState\<close> structs. An address is an index; allocation appends.\<close>

record heap =
  cells :: "InteractionResponseType list"
  states :: "InteractionResponseState list"

definition load_cell :: "heap \<Rightarrow> ptr \<Rightarrow> InteractionResponseType option" where
  "load_cell h p = (if p < length (cells h) then Some (cells h ! p) else None)"

definition load_state :: "heap \<Rightarrow> ptr \<Rightarrow> InteractionResponseState option" where
  "load_state h a = (if a < length (states h) then Some (states h ! a) else None)"

definition new_cell :: "InteractionResponseType \<Rightarrow> heap \<Rightarrow> ptr \<times> heap" where
  "new_cell v h = (length (cells h), h\<lparr>cells := cells h @ [v]\<rparr>)"

definition new_state :: "InteractionResponseState \<Rightarrow> heap \<Rightarrow> ptr \<times> heap" where
  "new_state st h = (length (states h), h\<lparr>states := states h @ [st]\<rparr>)"

definition store_cell :: "ptr \<Rightarrow> InteractionResponseType \<Rightarrow> heap \<Rightarrow> heap" where
  "store_cell p v h = h\<lparr>cells := (cells h)[p := v]\<rparr>"

definition store_state :: "ptr \<Rightarrow> InteractionResponseState \<Rightarrow> heap \<Rightarrow> heap" where
  "store_state a st h = h\<lparr>states := (states h)[a := st]\<rparr>"

text \<open>What a response state records, read off the heap: \<open>None\<close> when the pointer is nil
  or does not lead to a state and a cell of the heap (no Go program holds such a pointer),
  \<open>Some None\<close> for a state with no reply recorded, \<open>Some (Some k)\<close> for a state that
  records kind \<open>k\<close>.\<close>

definition stored :: "heap \<Rightarrow> ptr option \<Rightarrow> InteractionResponseType option option" where
  "stored h s =
     (case s of
        None \<Rightarrow> None
      | Some a \<Rightarrow>
          (case load_state h a of
             None \<Rightarrow> None
           | Some st \<Rightarrow>
               (case ResponseTypeValue st of
                  None \<Rightarrow> Some None
                | Some p \<Rightarrow>
                    (case load_cell h p of
                       None \<Rightarrow> None
                     | Some v \<Rightarrow> Some (Some v)))))"

subsection \<open>InteractionResponseState\<close>

definition NewInteractionResponseState :: "heap \<Rightarrow> ptr option \<times> heap" where
  "NewInteractionResponseState h =
     (let (a, h') = new_state \<lparr>ResponseTypeValue = None\<rparr> h in (Some a, h'))"

text \<open>\<^verbatim>\<open>ResponseType\<close>: nil for a nil receiver and for a nil \<^verbatim>\<open>ResponseTypeValue\<close>;
  otherwise the address of a new local variable that holds a copy of the pointee.\<close>

definition ResponseType :: "ptr option \<Rightarrow> heap \<Rightarrow> (panic + ptr option) \<times> heap" where
  "ResponseType s h =
     (case s of
        None \<Rightarrow> (Inr None, h)
      | Some a \<Rightarrow>
          (case load_state h a of
             None \<Rightarrow> (Inl InvalidMemoryAddress, h)
           | Some st \<Rightarrow>
               (case ResponseTypeValue st of
                  None \<Rightarrow> (Inr None, h)
                | Some p \<Rightarrow>
                    (case load_cell h p of
                       None \<Rightarrow> (Inl InvalidMemoryAddress, h)
                     | Some v \<Rightarrow>
                         (let (responseType, h') = new_cell v h
                          in (Inr (Some responseType), h'))))))"

text \<open>\<^verbatim>\<open>responseType != nil && *responseType == c\<close>, on the pointer that
  \<^verbatim>\<open>s.ResponseType()\<close> returned.\<close>

definition is_response_type ::
  "InteractionResponseType \<Rightarrow> ptr option \<Rightarrow> heap \<Rightarrow> (panic + bool) \<times> heap" where
  "is_response_type c s h =
     (case ResponseType s h of
        (Inl e, h') \<Rightarrow> (Inl e, h')
      | (Inr None, h') \<Rightarrow> (Inr False, h')
      | (Inr (Some responseType), h') \<Rightarrow>
          (case load_cell h' responseType of
             None \<Rightarrow> (Inl InvalidMemoryAddress, h')
           | Some v \<Rightarrow> (Inr (v = c), h')))"

definition IsDefferedReply :: "discord \<Rightarrow> ptr option \<Rightarrow> heap \<Rightarrow> (panic + bool) \<times> heap" where
  "IsDefferedReply d s h =
     is_response_type (InteractionResponseTypeDeferredCreateMessage d) s h"

definition IsDefferedUpdate :: "discord \<Rightarrow> ptr option \<Rightarrow> heap \<Rightarrow> (panic + bool) \<times> heap" where
  "IsDefferedUpdate d s h =
     is_response_type (InteractionResponseTypeDeferredUpdateMessage d) s h"

subsection \<open>The responder\<close>

text \<open>\<^verbatim>\<open>discord.Interaction\<close> is an interface; the responder reads \<^verbatim>\<open>ID()\<close> and
  \<^verbatim>\<open>Token()\<close>, the dispatch switches on the dynamic type. The four struct types of the
  switch are distinct, so a value matches at most one case; a value of any other dynamic
  type carries the name that \<^verbatim>\<open>%T\<close> prints. The interface value itself is not nil.\<close>

datatype Interaction =
    ApplicationCommandInteraction snowflake string
  | ComponentInteraction snowflake string
  | AutocompleteInteraction snowflake string
  | ModalSubmitInteraction snowflake string
  | OtherInteraction string snowflake string

fun ID :: "Interaction \<Rightarrow> snowflake" where
  "ID (ApplicationCommandInteraction i t) = i"
| "ID (ComponentInteraction i t) = i"
| "ID (AutocompleteInteraction i t) = i"
| "ID (ModalSubmitInteraction i t) = i"
| "ID (OtherInteraction n i t) = i"

fun Token :: "Interaction \<Rightarrow> string" where
  "Token (ApplicationCommandInteraction i t) = t"
| "Token (ComponentInteraction i t) = t"
| "Token (AutocompleteInteraction i t) = t"
| "Token (ModalSubmitInteraction i t) = t"
| "Token (OtherInteraction n i t) = t"

text \<open>An outbound call returns an error value or panics, and may change the heap (the
  callee is arbitrary Go code, and other goroutines run while it is in flight).
  \<^verbatim>\<open>httpserver.RespondFunc\<close> is the direct response sink; of \<^verbatim>\<open>*bot.Client\<close> the
  responder uses \<^verbatim>\<open>client.Rest.CreateInteractionResponse\<close>. The client pointer is
  not nil.\<close>

type_synonym 'a go = "heap \<Rightarrow> (panic + 'a) \<times> heap"

type_synonym RespondFunc = "InteractionResponse \<Rightarrow> error option go"

record Client =
  CreateInteractionResponse ::
    "snowflake \<Rightarrow> string \<Rightarrow> InteractionResponse \<Rightarrow> RequestOpt list \<Rightarrow> error option go"

text \<open>The calls that leave the responder are written to a log, oldest first, at the
  place of the call. The log is not part of the heap: no callee can rewrite it.\<close>

datatype outbound_call =
    RespondFuncCall InteractionResponse
  | CreateInteractionResponseCall snowflake string InteractionResponse "RequestOpt list"

record world =
  mem :: heap
  outbound :: "outbound_call list"

type_synonym InteractionResponderFunc =
  "InteractionResponseType \<Rightarrow> InteractionResponseData option \<Rightarrow> RequestOpt list \<Rightarrow>
   world \<Rightarrow> (panic + error option) \<times> world"

text \<open>The function value that the outbound step of \<^verbatim>\<open>respond\<close> calls
  (\<^verbatim>\<open>if respondFunc != nil { ... } else { ... }\<close>), and the call itself.\<close>

definition transport ::
  "Client \<Rightarrow> RespondFunc option \<Rightarrow> Interaction \<Rightarrow> RequestOpt list \<Rightarrow> RespondFunc" where
  "transport client respondFunc interaction opts =
     (case respondFunc of
        Some f \<Rightarrow> f
      | None \<Rightarrow> (\<lambda>response.
          CreateInteractionResponse client (ID interaction) (Token interaction) response opts))"

definition send_response ::
  "Client \<Rightarrow> RespondFunc option \<Rightarrow> Interaction \<Rightarrow> InteractionResponse \<Rightarrow> RequestOpt list \<Rightarrow>
   world \<Rightarrow> (panic + error option) \<times> world" where
  "send_response client respondFunc interaction response opts w =
     (let call = (case respondFunc of
                    Some f \<Rightarrow> RespondFuncCall response
                  | None \<Rightarrow> CreateInteractionResponseCall
                             (ID interaction) (Token interaction) response opts);
          (err, h) = transport client respondFunc interaction opts response (mem w)
      in (err, \<lparr>mem = h, outbound = outbound w @ [call]\<rparr>))"

text \<open>The end of \<^verbatim>\<open>respond\<close>, from \<^verbatim>\<open>responseState.Mu.Lock()\<close> on: a nil
  \<^verbatim>\<open>responseState\<close> panics at the lock; a state that holds a kind is left alone; an
  empty one gets the address of a copy of \<^verbatim>\<open>responseType\<close>.\<close>

definition commit :: "ptr option \<Rightarrow> InteractionResponseType \<Rightarrow> error option go" where
  "commit responseState responseType h =
     (case responseState of
        None \<Rightarrow> (Inl InvalidMemoryAddress, h)
      | Some a \<Rightarrow>
          (case load_state h a of
             None \<Rightarrow> (Inl InvalidMemoryAddress, h)
           | Some st \<Rightarrow>
               (if ResponseTypeValue st \<noteq> None
                then (Inr (Some ErrInteractionAlreadyReplied), h)
                else (let (responseTypeCopy, h') = new_cell responseType h
                      in (Inr None,
                          store_state a (st\<lparr>ResponseTypeValue := Some responseTypeCopy\<rparr>) h')))))"

definition respond ::
  "Client \<Rightarrow> RespondFunc option \<Rightarrow> Interaction \<Rightarrow> ptr option \<Rightarrow> InteractionResponderFunc" where
  "respond client respondFunc interaction responseState responseType data opts w =
     (case ResponseType responseState (mem w) of
        (Inl e, h) \<Rightarrow> (Inl e, w\<lparr>mem := h\<rparr>)
      | (Inr (Some p), h) \<Rightarrow> (Inr (Some ErrInteractionAlreadyReplied), w\<lparr>mem := h\<rparr>)
      | (Inr None, h) \<Rightarrow>
          (let response = \<lparr>Type = responseType, Data = data\<rparr> in
           case send_response client respondFunc interaction response opts (w\<lparr>mem := h\<rparr>) of
             (Inl e, w') \<Rightarrow> (Inl e, w')
           | (Inr (Some err), w') \<Rightarrow> (Inr (Some err), w')
           | (Inr None, w') \<Rightarrow>
               (let (r, h') = commit responseState responseType (mem w')
                in (r, w'\<lparr>mem := h'\<rparr>))))"

subsection \<open>Events and the dispatch\<close>

text \<open>Modelled from the spec: \<^verbatim>\<open>events.GenericEvent\<close> and \<^verbatim>\<open>events.NewGenericEvent\<close> are
  declared in another file of package \<^verbatim>\<open>events\<close>; the envelope holds the client handle,
  the sequence number and the shard identifier, and is read-only once built.\<close>

record GenericEvent =
  ev_client :: Client
  ev_sequenceNumber :: int
  ev_shardID :: int

definition NewGenericEvent :: "Client \<Rightarrow> int \<Rightarrow> int \<Rightarrow> GenericEvent" where
  "NewGenericEvent c n k = \<lparr>ev_client = c, ev_sequenceNumber = n, ev_shardID = k\<rparr>"

text \<open>The five event structs. Each has the envelope, the interaction (in the four
  variant structs the embedded field has the variant's type), the responder and the
  pointer to the response state.\<close>

datatype Event =
    InteractionCreate
      (GenericEvent: GenericEvent) (Interaction: Interaction)
      (Respond: InteractionResponderFunc) (ResponseState: "ptr option")
  | ApplicationCommandInteractionCreate
      (GenericEvent: GenericEvent) (Interaction: Interaction)
      (Respond: InteractionResponderFunc) (ResponseState: "ptr option")
  | ComponentInteractionCreate
      (GenericEvent: GenericEvent) (Interaction: Interaction)
      (Respond: InteractionResponderFunc) (ResponseState: "ptr option")
  | AutocompleteInteractionCreate
      (GenericEvent: GenericEvent) (Interaction: Interaction)
      (Respond: InteractionResponderFunc) (ResponseState: "ptr option")
  | ModalSubmitInteractionCreate
      (GenericEvent: GenericEvent) (Interaction: Interaction)
      (Respond: InteractionResponderFunc) (ResponseState: "ptr option")

text \<open>\<^verbatim>\<open>client.EventManager.DispatchEvent\<close> and \<^verbatim>\<open>client.Logger.Error\<close> return nothing
  to \<^verbatim>\<open>handleInteraction\<close>; the model lists these calls in the order they are made. What
  the listeners do with an event is theirs, not this function's.\<close>

datatype effect =
    DispatchEvent Event
  | LoggerError string "(string \<times> string) list"

definition handleInteraction ::
  "Client \<Rightarrow> int \<Rightarrow> int \<Rightarrow> RespondFunc option \<Rightarrow> Interaction \<Rightarrow> world \<Rightarrow> effect list \<times> world" where
  "handleInteraction client sequenceNumber shardID respondFunc interaction w =
     (let genericEvent = NewGenericEvent client sequenceNumber shardID;
          (responseState, h) = NewInteractionResponseState (mem w);
          responder = respond client respondFunc interaction responseState
      in (DispatchEvent (InteractionCreate genericEvent interaction responder responseState) #
          (case interaction of
             ApplicationCommandInteraction i t \<Rightarrow>
               [DispatchEvent (ApplicationCommandInteractionCreate
                                 genericEvent interaction responder responseState)]
           | ComponentInteraction i t \<Rightarrow>
               [DispatchEvent (ComponentInteractionCreate
                                 genericEvent interaction responder responseState)]
           | AutocompleteInteraction i t \<Rightarrow>
               [DispatchEvent (AutocompleteInteractionCreate
                                 genericEvent interaction responder responseState)]
           | ModalSubmitInteraction i t \<Rightarrow>
               [DispatchEvent (ModalSubmitInteractionCreate
                                 genericEvent interaction responder responseState)]
           | OtherInteraction n i t \<Rightarrow>
               [LoggerError ''unknown interaction'' [(''type'', n)]]),
          w\<lparr>mem := h\<rparr>))"

definition gatewayHandlerInteractionCreate ::
  "Client \<Rightarrow> int \<Rightarrow> int \<Rightarrow> Interaction \<Rightarrow> world \<Rightarrow> effect list \<times> world" where
  "gatewayHandlerInteractionCreate client sequenceNumber shardID interaction w =
     handleInteraction client sequenceNumber shardID None interaction w"

subsection \<open>The reply methods of the events\<close>

text \<open>The reply methods that the file declares, by receiver type. The generic
  \<^verbatim>\<open>InteractionCreate\<close> has none (its \<^verbatim>\<open>Respond\<close> field is called directly).\<close>

datatype reply_method =
    AcknowledgeM
  | CreateMessageM
  | DeferCreateMessageM
  | UpdateMessageM
  | DeferUpdateMessageM
  | ModalM
  | LaunchActivityM
  | AutocompleteResultM

fun reply_methods :: "Event \<Rightarrow> reply_method list" where
  "reply_methods (InteractionCreate g i r s) = []"
| "reply_methods (ApplicationCommandInteractionCreate g i r s) =
     [AcknowledgeM, CreateMessageM, DeferCreateMessageM, ModalM, LaunchActivityM]"
| "reply_methods (ComponentInteractionCreate g i r s) =
     [AcknowledgeM, CreateMessageM, DeferCreateMessageM, UpdateMessageM, DeferUpdateMessageM,
      ModalM, LaunchActivityM]"
| "reply_methods (AutocompleteInteractionCreate g i r s) =
     [AcknowledgeM, AutocompleteResultM]"
| "reply_methods (ModalSubmitInteractionCreate g i r s) =
     [AcknowledgeM, CreateMessageM, DeferCreateMessageM, UpdateMessageM, DeferUpdateMessageM,
      LaunchActivityM]"

text \<open>The two reply methods with receiver \<^verbatim>\<open>*AutocompleteInteractionCreate\<close>.\<close>

definition AutocompleteInteractionCreate_Acknowledge ::
  "discord \<Rightarrow> Event \<Rightarrow> RequestOpt list \<Rightarrow> world \<Rightarrow> (panic + error option) \<times> world" where
  "AutocompleteInteractionCreate_Acknowledge d e opts =
     Respond e (InteractionResponseTypeAcknowledge d) None opts"

definition AutocompleteInteractionCreate_AutocompleteResult ::
  "discord \<Rightarrow> Event \<Rightarrow> AutocompleteChoice list \<Rightarrow> RequestOpt list \<Rightarrow>
   world \<Rightarrow> (panic + error option) \<times> world" where
  "AutocompleteInteractionCreate_AutocompleteResult d e choices opts =
     Respond e (InteractionResponseTypeAutocompleteResult d)
       (Some (AutocompleteResult choices)) opts"

subsection \<open>Sequences of calls on one response state\<close>




text \<open>The events that a list of effects dispatches, in order, and the two kinds of
  event.\<close>

fun dispatched :: "effect list \<Rightarrow> Event list" where
  "dispatched [] = []"
| "dispatched (DispatchEvent e # es) = e # dispatched es"
| "dispatched (LoggerError m as # es) = dispatched es"

fun logged :: "effect list \<Rightarrow> (string \<times> (string \<times> string) list) list" where
  "logged [] = []"
| "logged (DispatchEvent e # es) = logged es"
| "logged (LoggerError m as # es) = (m, as) # logged es"

fun is_generic :: "Event \<Rightarrow> bool" where
  "is_generic (InteractionCreate g i r s) = True"
| "is_generic e = False"

fun is_known :: "Interaction \<Rightarrow> bool" where
  "is_known (OtherInteraction n i t) = False"
| "is_known i = True"

text \<open>The variant event that belongs to an interaction of a known variant.\<close>

fun matches :: "Event \<Rightarrow> Interaction \<Rightarrow> bool" where
  "matches (ApplicationCommandInteractionCreate g j r s) (ApplicationCommandInteraction i t) = True"
| "matches (ComponentInteractionCreate g j r s) (ComponentInteraction i t) = True"
| "matches (AutocompleteInteractionCreate g j r s) (AutocompleteInteraction i t) = True"
| "matches (ModalSubmitInteractionCreate g j r s) (ModalSubmitInteraction i t) = True"
| "matches e i = False"

subsection \<open>Collaborators and heaps for the examples\<close>

text \<open>A direct response sink and a request client whose calls succeed and touch
  nothing; a request client whose calls fail; a sink that fails on one kind of response; a sink during whose call another
  caller records its own reply; four distinct values for the \<^verbatim>\<open>discord\<close> constants
  (the constants themselves are declared outside the two files); a command interaction and an autocomplete event; a heap with one state
  that records kind 5, the empty world, and a world with one state that records
  nothing.\<close>

definition accept :: RespondFunc where
  "accept response h = (Inr None, h)"

definition accepting_client :: Client where
  "accepting_client =
     \<lparr>CreateInteractionResponse = (\<lambda>i t response opts h. (Inr None, h))\<rparr>"

definition refusing_client :: Client where
  "refusing_client =
     \<lparr>CreateInteractionResponse =
        (\<lambda>i t response opts h. (Inr (Some (OtherError ''unavailable'')), h))\<rparr>"

definition refuse :: "InteractionResponseType \<Rightarrow> RespondFunc" where
  "refuse k response h =
     (if Type response = k then (Inr (Some (OtherError ''refused'')), h) else (Inr None, h))"

definition overtaken :: "ptr option \<Rightarrow> InteractionResponseType \<Rightarrow> RespondFunc" where
  "overtaken s k response h = (Inr None, snd (commit s k h))"

definition discord_values :: discord where
  "discord_values =
     \<lparr>InteractionResponseTypeAcknowledge = - 1,
      InteractionResponseTypeDeferredCreateMessage = 5,
      InteractionResponseTypeDeferredUpdateMessage = 6,
      InteractionResponseTypeAutocompleteResult = 8\<rparr>"

definition command_interaction :: Interaction where
  "command_interaction = ApplicationCommandInteraction 1 ''token''"

definition autocomplete_event :: Event where
  "autocomplete_event =
     AutocompleteInteractionCreate (NewGenericEvent accepting_client 42 0)
       (AutocompleteInteraction 1 ''token'')
       (respond accepting_client None (AutocompleteInteraction 1 ''token'') (Some 0)) (Some 0)"

definition replied_heap :: heap where
  "replied_heap = \<lparr>cells = [5], states = [\<lparr>ResponseTypeValue = Some 0\<rparr>]\<rparr>"

definition empty_world :: world where
  "empty_world = \<lparr>mem = \<lparr>cells = [], states = []\<rparr>, outbound = []\<rparr>"

definition open_world :: world where
  "open_world =
     \<lparr>mem = \<lparr>cells = [], states = [\<lparr>ResponseTypeValue = None\<rparr>]\<rparr>, outbound = []\<rparr>"

section \<open>Properties\<close>

subsection \<open>Facts about the heap\<close>

lemma stored_new_cell:
  "stored h s = Some x \<Longrightarrow> stored (snd (new_cell v h)) s = Some x"
  by (auto simp: stored_def new_cell_def load_state_def load_cell_def nth_append
      split: option.splits if_splits)

lemma ResponseType_stored:
  "stored h s = Some (Some k) \<Longrightarrow>
   ResponseType s h = (Inr (Some (length (cells h))), snd (new_cell k h))"
  by (auto simp: stored_def ResponseType_def new_cell_def split: option.splits)

lemma ResponseType_empty: "stored h s = Some None \<Longrightarrow> ResponseType s h = (Inr None, h)"
  by (auto simp: stored_def ResponseType_def split: option.splits)


lemma is_response_type_stored:
  "stored h s = Some x \<Longrightarrow> fst (is_response_type c s h) = Inr (x = Some c)"
  by (cases x)
    (auto simp: is_response_type_def ResponseType_stored ResponseType_empty new_cell_def
      load_cell_def)


lemma is_response_type_nil: "is_response_type c None h = (Inr False, h)"
  by (simp add: is_response_type_def ResponseType_def)

subsection \<open>The predicates on the response state\<close>

text \<open>C8. For a response state of the heap, \<^verbatim>\<open>IsDefferedReply()\<close> returns true exactly
  when the recorded kind is the deferred-create-message kind, \<^verbatim>\<open>IsDefferedUpdate()\<close>
  exactly when it is the deferred-update-message kind, and both return false when no kind
  is recorded (an empty state, or a nil state pointer).\<close>

theorem IsDeffered_iff_stored:
  assumes "stored h s = Some x \<or> (s = None \<and> x = None)"
  shows "fst (IsDefferedReply d s h) =
           Inr (x = Some (InteractionResponseTypeDeferredCreateMessage d))
       \<and> fst (IsDefferedUpdate d s h) =
           Inr (x = Some (InteractionResponseTypeDeferredUpdateMessage d))
       \<and> (x = None \<longrightarrow> fst (IsDefferedReply d s h) = Inr False
                     \<and> fst (IsDefferedUpdate d s h) = Inr False)"
  using assms
  by (auto simp: IsDefferedReply_def IsDefferedUpdate_def is_response_type_stored
      is_response_type_nil)

theorem IsDeffered_iff_stored_witness:
  "stored replied_heap (Some 0) = Some (Some 5)
   \<and> fst (IsDefferedReply discord_values (Some 0) replied_heap) = Inr True
   \<and> fst (IsDefferedUpdate discord_values (Some 0) replied_heap) = Inr False"
proof -
  have h: "stored replied_heap (Some 0) = Some (Some 5)"
    by (simp add: stored_def replied_heap_def load_state_def load_cell_def)
  from IsDeffered_iff_stored [of replied_heap "Some 0" "Some 5" discord_values] h
  show ?thesis by (simp add: discord_values_def)
qed

text \<open>C10. On a nil \<^verbatim>\<open>*InteractionResponseState\<close>, \<^verbatim>\<open>ResponseType()\<close> returns nil and
  both predicates return false; nothing panics and the heap is as before. When
  \<^verbatim>\<open>ResponseType()\<close> returns a pointer, it is the address of a new variable that holds
  the recorded kind, different from the address the state keeps, and a write through it
  changes neither the states nor the kind that the state records.\<close>

theorem ResponseType_nil_and_copy:
  "ResponseType None h = (Inr None, h)
   \<and> IsDefferedReply d None h = (Inr False, h)
   \<and> IsDefferedUpdate d None h = (Inr False, h)
   \<and> (\<forall>p h' v. ResponseType s h = (Inr (Some p), h') \<longrightarrow>
         length (cells h) \<le> p
       \<and> stored h s = Some (load_cell h' p)
       \<and> load_cell h' p \<noteq> None
       \<and> (\<forall>a st. s = Some a \<and> load_state h' a = Some st \<longrightarrow> ResponseTypeValue st \<noteq> Some p)
       \<and> states (store_cell p v h') = states h
       \<and> stored (store_cell p v h') s = stored h s)"
proof -
  have nil: "ResponseType None h = (Inr None, h)"
    by (simp add: ResponseType_def)
  have copy: "\<forall>p h' v. ResponseType s h = (Inr (Some p), h') \<longrightarrow>
         length (cells h) \<le> p
       \<and> stored h s = Some (load_cell h' p)
       \<and> load_cell h' p \<noteq> None
       \<and> (\<forall>a st. s = Some a \<and> load_state h' a = Some st \<longrightarrow> ResponseTypeValue st \<noteq> Some p)
       \<and> states (store_cell p v h') = states h
       \<and> stored (store_cell p v h') s = stored h s"
    by (auto simp: ResponseType_def stored_def new_cell_def store_cell_def load_state_def
        load_cell_def nth_append nth_list_update split: option.splits if_splits)
  have r: "IsDefferedReply d None h = (Inr False, h)"
    by (simp add: IsDefferedReply_def is_response_type_nil)
  have u: "IsDefferedUpdate d None h = (Inr False, h)"
    by (simp add: IsDefferedUpdate_def is_response_type_nil)
  from nil r u copy show ?thesis
    by (intro conjI)
qed

theorem ResponseType_nil_and_copy_witness:
  "ResponseType (Some 0) replied_heap =
     (Inr (Some 1), \<lparr>cells = [5, 5], states = [\<lparr>ResponseTypeValue = Some 0\<rparr>]\<rparr>)
   \<and> stored (store_cell 1 7 \<lparr>cells = [5, 5], states = [\<lparr>ResponseTypeValue = Some 0\<rparr>]\<rparr>)
        (Some 0) = Some (Some 5)"
proof -
  have r: "ResponseType (Some 0) replied_heap =
     (Inr (Some 1), \<lparr>cells = [5, 5], states = [\<lparr>ResponseTypeValue = Some 0\<rparr>]\<rparr>)"
    by (simp add: ResponseType_def replied_heap_def load_state_def load_cell_def new_cell_def)
  have h: "stored replied_heap (Some 0) = Some (Some 5)"
    by (simp add: stored_def replied_heap_def load_state_def load_cell_def)
  from ResponseType_nil_and_copy [of replied_heap discord_values "Some 0"] r h
  show ?thesis by simp
qed

subsection \<open>One call of the responder\<close>

lemma respond_replied:
  "stored (mem w) s = Some (Some k) \<Longrightarrow>
   respond c rf i s k' dat opts w =
     (Inr (Some ErrInteractionAlreadyReplied), w\<lparr>mem := snd (new_cell k (mem w))\<rparr>)"
  by (simp add: respond_def ResponseType_stored)

lemma send_response_eq:
  "transport c rf i opts response (mem w) = (r, h) \<Longrightarrow>
   \<exists>call. send_response c rf i response opts w = (r, \<lparr>mem = h, outbound = outbound w @ [call]\<rparr>)"
  by (simp add: send_response_def)

lemma commit_empty:
  "stored h s = Some None \<Longrightarrow>
   \<exists>h'. commit s k h = (Inr None, h') \<and> stored h' s = Some (Some k)"
  by (auto simp: commit_def stored_def new_cell_def store_state_def load_state_def
      load_cell_def split: option.splits if_splits)

lemma commit_replied:
  "stored h s = Some (Some k') \<Longrightarrow> commit s k h = (Inr (Some ErrInteractionAlreadyReplied), h)"
  by (auto simp: commit_def stored_def split: option.splits)


lemma respond_empty_success:
  assumes "stored (mem w) s = Some None"
    and "transport c rf i opts \<lparr>Type = k, Data = dat\<rparr> (mem w) = (Inr None, h)"
    and "stored h s = Some None"
  shows "\<exists>w'. respond c rf i s k dat opts w = (Inr None, w') \<and> stored (mem w') s = Some (Some k)"
proof -
  from send_response_eq [OF assms(2)] obtain call where
    sr: "send_response c rf i \<lparr>Type = k, Data = dat\<rparr> opts w =
           (Inr None, \<lparr>mem = h, outbound = outbound w @ [call]\<rparr>)"
    by blast
  from commit_empty [OF assms(3)] obtain h' where
    cm: "commit s k h = (Inr None, h')" "stored h' s = Some (Some k)"
    by blast
  show ?thesis
    by (simp add: respond_def ResponseType_empty [OF assms(1)] sr cm)
qed

text \<open>C3. When the response state already records a kind, the responder returns
  \<^verbatim>\<open>ErrInteractionAlreadyReplied\<close>; no call leaves it (the log of outbound calls is as
  before, and the outcome is the same whatever sink and client the responder was built
  with); the states are untouched and the recorded kind is the same.\<close>

theorem respond_rejects_when_replied:
  assumes "stored (mem w) s = Some (Some k)"
  shows "fst (respond c rf i s k' dat opts w) = Inr (Some ErrInteractionAlreadyReplied)
       \<and> outbound (snd (respond c rf i s k' dat opts w)) = outbound w
       \<and> respond c rf i s k' dat opts w = respond c' rf' i' s k' dat opts w
       \<and> states (mem (snd (respond c rf i s k' dat opts w))) = states (mem w)
       \<and> stored (mem (snd (respond c rf i s k' dat opts w))) s = Some (Some k)"
  using assms stored_new_cell [OF assms, of k]
  by (simp add: respond_replied) (simp add: new_cell_def)

theorem respond_rejects_when_replied_witness:
  "stored (mem \<lparr>mem = replied_heap, outbound = []\<rparr>) (Some 0) = Some (Some 5)
   \<and> fst (respond accepting_client (Some accept) (ComponentInteraction 1 ''t'') (Some 0) 4 None []
            \<lparr>mem = replied_heap, outbound = []\<rparr>) = Inr (Some ErrInteractionAlreadyReplied)
   \<and> outbound (snd (respond accepting_client (Some accept) (ComponentInteraction 1 ''t'') (Some 0)
            4 None [] \<lparr>mem = replied_heap, outbound = []\<rparr>)) = []"
proof -
  have h: "stored (mem \<lparr>mem = replied_heap, outbound = []\<rparr>) (Some 0) = Some (Some 5)"
    by (simp add: stored_def replied_heap_def load_state_def load_cell_def)
  from respond_rejects_when_replied [OF h, of accepting_client "Some accept"
      "ComponentInteraction 1 ''t''" 4 None "[]"] h
  show ?thesis by simp
qed

lemma ResponseType_nil_heap:
  "fst (ResponseType s h) = Inr None \<Longrightarrow> ResponseType s h = (Inr None, h)"
  by (auto simp: ResponseType_def new_cell_def split: option.splits)

lemma respond_after_call:
  assumes "fst (ResponseType s (mem w)) = Inr None"
    and "transport c rf i opts \<lparr>Type = k, Data = dat\<rparr> (mem w) = (r, h)"
  shows "(r \<noteq> Inr None \<longrightarrow>
            fst (respond c rf i s k dat opts w) = r
          \<and> mem (snd (respond c rf i s k dat opts w)) = h)
       \<and> (r = Inr None \<longrightarrow>
            fst (respond c rf i s k dat opts w) = fst (commit s k h)
          \<and> mem (snd (respond c rf i s k dat opts w)) = snd (commit s k h))"
proof -
  from send_response_eq [OF assms(2)] obtain call where
    sr: "send_response c rf i \<lparr>Type = k, Data = dat\<rparr> opts w =
           (r, \<lparr>mem = h, outbound = outbound w @ [call]\<rparr>)"
    by blast
  show ?thesis
    by (simp add: respond_def ResponseType_nil_heap [OF assms(1)] sr
        split: sum.splits option.splits prod.splits)
qed

lemma respond_log:
  assumes "fst (ResponseType s (mem w)) = Inr None"
  shows "outbound (snd (respond c rf i s k dat opts w)) =
           outbound w @
             [case rf of
                Some f \<Rightarrow> RespondFuncCall \<lparr>Type = k, Data = dat\<rparr>
              | None \<Rightarrow> CreateInteractionResponseCall (ID i) (Token i)
                          \<lparr>Type = k, Data = dat\<rparr> opts]"
  by (auto simp: respond_def ResponseType_nil_heap [OF assms] send_response_def Let_def
      split: prod.splits sum.splits option.splits)

lemma respond_sink_any_client:
  "respond c (Some f) i s k dat opts w = respond c' (Some f) i' s k dat opts w"
proof -
  have sr: "send_response c (Some f) i = send_response c' (Some f) i'"
    by (simp add: fun_eq_iff send_response_def transport_def)
  show ?thesis
    unfolding respond_def sr by (rule refl)
qed

text \<open>C9. Take a call of the responder that finds no reply recorded (\<^verbatim>\<open>ResponseType()\<close>
  returns nil). With a direct response sink \<open>f\<close>, the outcome is the outcome of \<open>f\<close>
  applied to the response built from the kind and the data: when \<open>f\<close> returns an error
  or panics, the responder returns just that, on the heap that \<open>f\<close> left; when \<open>f\<close>
  returns nil, the responder goes on to record the kind on the heap that \<open>f\<close> left. The
  one call logged is the call of the sink, and the request client plays no part: the
  outcome is the same for every client and interaction. Without a sink, the same holds
  of \<^verbatim>\<open>CreateInteractionResponse\<close> of the client, applied to the interaction's ID and
  token, that response and the options.\<close>

theorem respond_outbound_call:
  assumes "fst (ResponseType s (mem w)) = Inr None"
  shows "(\<forall>f r h. rf = Some f \<and> f \<lparr>Type = k, Data = dat\<rparr> (mem w) = (r, h) \<longrightarrow>
            (r \<noteq> Inr None \<longrightarrow>
               fst (respond c rf i s k dat opts w) = r
             \<and> mem (snd (respond c rf i s k dat opts w)) = h)
          \<and> (r = Inr None \<longrightarrow>
               fst (respond c rf i s k dat opts w) = fst (commit s k h)
             \<and> mem (snd (respond c rf i s k dat opts w)) = snd (commit s k h))
          \<and> outbound (snd (respond c rf i s k dat opts w)) =
               outbound w @ [RespondFuncCall \<lparr>Type = k, Data = dat\<rparr>]
          \<and> respond c rf i s k dat opts w = respond c' rf i' s k dat opts w)
       \<and> (\<forall>r h. rf = None
              \<and> CreateInteractionResponse c (ID i) (Token i) \<lparr>Type = k, Data = dat\<rparr> opts (mem w)
                  = (r, h) \<longrightarrow>
            (r \<noteq> Inr None \<longrightarrow>
               fst (respond c rf i s k dat opts w) = r
             \<and> mem (snd (respond c rf i s k dat opts w)) = h)
          \<and> (r = Inr None \<longrightarrow>
               fst (respond c rf i s k dat opts w) = fst (commit s k h)
             \<and> mem (snd (respond c rf i s k dat opts w)) = snd (commit s k h))
          \<and> outbound (snd (respond c rf i s k dat opts w)) =
               outbound w @ [CreateInteractionResponseCall (ID i) (Token i)
                               \<lparr>Type = k, Data = dat\<rparr> opts])"
proof -
  have sink: "(r \<noteq> Inr None \<longrightarrow>
               fst (respond c rf i s k dat opts w) = r
             \<and> mem (snd (respond c rf i s k dat opts w)) = h)
          \<and> (r = Inr None \<longrightarrow>
               fst (respond c rf i s k dat opts w) = fst (commit s k h)
             \<and> mem (snd (respond c rf i s k dat opts w)) = snd (commit s k h))
          \<and> outbound (snd (respond c rf i s k dat opts w)) =
               outbound w @ [RespondFuncCall \<lparr>Type = k, Data = dat\<rparr>]
          \<and> respond c rf i s k dat opts w = respond c' rf i' s k dat opts w"
    if a: "rf = Some f \<and> f \<lparr>Type = k, Data = dat\<rparr> (mem w) = (r, h)" for f r h
  proof -
    from a have t: "transport c rf i opts \<lparr>Type = k, Data = dat\<rparr> (mem w) = (r, h)"
      by (simp add: transport_def)
    from a have l: "outbound (snd (respond c rf i s k dat opts w)) =
               outbound w @ [RespondFuncCall \<lparr>Type = k, Data = dat\<rparr>]"
      using respond_log [OF assms, of c rf i k dat opts] by simp
    from a have e: "respond c rf i s k dat opts w = respond c' rf i' s k dat opts w"
      by (simp add: respond_sink_any_client)
    from respond_after_call [OF assms t] l e show ?thesis
      by (intro conjI) simp_all
  qed
  have cl: "(r \<noteq> Inr None \<longrightarrow>
               fst (respond c rf i s k dat opts w) = r
             \<and> mem (snd (respond c rf i s k dat opts w)) = h)
          \<and> (r = Inr None \<longrightarrow>
               fst (respond c rf i s k dat opts w) = fst (commit s k h)
             \<and> mem (snd (respond c rf i s k dat opts w)) = snd (commit s k h))
          \<and> outbound (snd (respond c rf i s k dat opts w)) =
               outbound w @ [CreateInteractionResponseCall (ID i) (Token i)
                               \<lparr>Type = k, Data = dat\<rparr> opts]"
    if a: "rf = None
       \<and> CreateInteractionResponse c (ID i) (Token i) \<lparr>Type = k, Data = dat\<rparr> opts (mem w)
           = (r, h)" for r h
  proof -
    from a have t: "transport c rf i opts \<lparr>Type = k, Data = dat\<rparr> (mem w) = (r, h)"
      by (simp add: transport_def)
    from a have l: "outbound (snd (respond c rf i s k dat opts w)) =
               outbound w @ [CreateInteractionResponseCall (ID i) (Token i)
                               \<lparr>Type = k, Data = dat\<rparr> opts]"
      using respond_log [OF assms, of c rf i k dat opts] by simp
    from respond_after_call [OF assms t] l show ?thesis
      by (intro conjI) simp_all
  qed
  from sink cl show ?thesis
    by blast
qed

theorem respond_outbound_call_witness:
  "fst (ResponseType (Some 0) (mem open_world)) = Inr None
   \<and> fst (respond refusing_client (Some accept) (ComponentInteraction 1 ''t'') (Some 0)
        4 None [] open_world) = Inr None
   \<and> outbound (snd (respond refusing_client (Some accept) (ComponentInteraction 1 ''t'') (Some 0)
        4 None [] open_world)) = [RespondFuncCall \<lparr>Type = 4, Data = None\<rparr>]
   \<and> fst (respond refusing_client None (ComponentInteraction 1 ''t'') (Some 0)
        4 None [] open_world) = Inr (Some (OtherError ''unavailable''))
   \<and> outbound (snd (respond refusing_client None (ComponentInteraction 1 ''t'') (Some 0)
        4 None [] open_world)) =
       [CreateInteractionResponseCall 1 ''t'' \<lparr>Type = 4, Data = None\<rparr> []]"
proof -
  have h: "fst (ResponseType (Some 0) (mem open_world)) = Inr None"
    by (simp add: ResponseType_def open_world_def load_state_def)
  have f: "accept \<lparr>Type = 4, Data = None\<rparr> (mem open_world) = (Inr None, mem open_world)"
    by (simp add: accept_def)
  have g: "CreateInteractionResponse refusing_client (ID (ComponentInteraction 1 ''t''))
             (Token (ComponentInteraction 1 ''t'')) \<lparr>Type = 4, Data = None\<rparr> [] (mem open_world) =
           (Inr (Some (OtherError ''unavailable'')), mem open_world)"
    by (simp add: refusing_client_def)
  have cm: "fst (commit (Some 0) 4 (mem open_world)) = Inr None"
    by (simp add: commit_def open_world_def load_state_def new_cell_def)
  from respond_outbound_call [OF h, of "Some accept" 4 None refusing_client
      "ComponentInteraction 1 ''t''" "[]"] f
  have sink: "fst (respond refusing_client (Some accept) (ComponentInteraction 1 ''t'') (Some 0)
        4 None [] open_world) = fst (commit (Some 0) 4 (mem open_world))"
    "outbound (snd (respond refusing_client (Some accept) (ComponentInteraction 1 ''t'') (Some 0)
        4 None [] open_world)) = outbound open_world @ [RespondFuncCall \<lparr>Type = 4, Data = None\<rparr>]"
    by blast+
  from respond_outbound_call [OF h, of None 4 None refusing_client
      "ComponentInteraction 1 ''t''" "[]"] g
  have cl: "fst (respond refusing_client None (ComponentInteraction 1 ''t'') (Some 0)
        4 None [] open_world) = Inr (Some (OtherError ''unavailable''))"
    "outbound (snd (respond refusing_client None (ComponentInteraction 1 ''t'') (Some 0)
        4 None [] open_world)) =
       outbound open_world @ [CreateInteractionResponseCall (ID (ComponentInteraction 1 ''t''))
          (Token (ComponentInteraction 1 ''t'')) \<lparr>Type = 4, Data = None\<rparr> []]"
    by auto
  from h sink cl cm show ?thesis
    by (simp add: open_world_def)
qed

lemma stored_open_world: "stored (mem open_world) (Some 0) = Some None"
  by (simp add: stored_def open_world_def load_state_def)

text \<open>C4. With no reply recorded, when the outbound call returns an error the responder
  returns that error and writes nothing: the heap is as the outbound call left it, so a
  state that the call did not touch still records nothing. A later send, of any kind,
  whose outbound call succeeds then succeeds and records its kind.\<close>

theorem respond_transport_error_keeps_open:
  assumes "stored (mem w) s = Some None"
    and "transport c rf i opts \<lparr>Type = k, Data = dat\<rparr> (mem w) = (Inr (Some err), h)"
    and "stored h s = Some None"
    and "transport c rf i opts' \<lparr>Type = k', Data = dat'\<rparr> h = (Inr None, h')"
    and "stored h' s = Some None"
  shows "\<exists>w1 w2. respond c rf i s k dat opts w = (Inr (Some err), w1)
           \<and> mem w1 = h \<and> stored (mem w1) s = Some None
           \<and> respond c rf i s k' dat' opts' w1 = (Inr None, w2)
           \<and> stored (mem w2) s = Some (Some k')"
proof -
  from send_response_eq [OF assms(2)] obtain call where
    sr: "send_response c rf i \<lparr>Type = k, Data = dat\<rparr> opts w =
           (Inr (Some err), \<lparr>mem = h, outbound = outbound w @ [call]\<rparr>)"
    by blast
  let ?w1 = "\<lparr>mem = h, outbound = outbound w @ [call]\<rparr>"
  have first: "respond c rf i s k dat opts w = (Inr (Some err), ?w1)"
    by (simp add: respond_def ResponseType_empty [OF assms(1)] sr)
  have "\<exists>w2. respond c rf i s k' dat' opts' ?w1 = (Inr None, w2)
          \<and> stored (mem w2) s = Some (Some k')"
    using respond_empty_success [of ?w1 s c rf i opts' k' dat' h'] assms(3-5) by simp
  with first assms(3) show ?thesis by auto
qed

theorem respond_transport_error_keeps_open_witness:
  "fst (respond accepting_client (Some (refuse 4)) (ComponentInteraction 1 ''t'') (Some 0)
          4 None [] open_world) = Inr (Some (OtherError ''refused''))
   \<and> fst (respond accepting_client (Some (refuse 4)) (ComponentInteraction 1 ''t'') (Some 0)
          5 None []
          (snd (respond accepting_client (Some (refuse 4)) (ComponentInteraction 1 ''t'') (Some 0)
                  4 None [] open_world))) = Inr None"
proof -
  have t1: "transport accepting_client (Some (refuse 4)) (ComponentInteraction 1 ''t'') []
              \<lparr>Type = 4, Data = None\<rparr> (mem open_world) =
            (Inr (Some (OtherError ''refused'')), mem open_world)"
    by (simp add: transport_def refuse_def)
  have t2: "transport accepting_client (Some (refuse 4)) (ComponentInteraction 1 ''t'') []
              \<lparr>Type = 5, Data = None\<rparr> (mem open_world) = (Inr None, mem open_world)"
    by (simp add: transport_def refuse_def)
  from respond_transport_error_keeps_open
    [OF stored_open_world t1 stored_open_world t2 stored_open_world]
  show ?thesis by auto
qed

text \<open>C5. With no reply recorded at the first check, when the outbound call succeeds
  and the state holds a kind once the call is back (another caller recorded it in the
  meantime), the responder returns \<^verbatim>\<open>ErrInteractionAlreadyReplied\<close> and writes nothing:
  the heap is as the call left it, with the kind the other caller recorded.\<close>

theorem respond_lost_race:
  assumes "stored (mem w) s = Some None"
    and "transport c rf i opts \<lparr>Type = k, Data = dat\<rparr> (mem w) = (Inr None, h)"
    and "stored h s = Some (Some k')"
  shows "\<exists>w'. respond c rf i s k dat opts w = (Inr (Some ErrInteractionAlreadyReplied), w')
           \<and> mem w' = h \<and> stored (mem w') s = Some (Some k')"
proof -
  from send_response_eq [OF assms(2)] obtain call where
    sr: "send_response c rf i \<lparr>Type = k, Data = dat\<rparr> opts w =
           (Inr None, \<lparr>mem = h, outbound = outbound w @ [call]\<rparr>)"
    by blast
  show ?thesis
    by (simp add: respond_def ResponseType_empty [OF assms(1)] sr
        commit_replied [OF assms(3)] assms(3))
qed

theorem respond_lost_race_witness:
  "fst (respond accepting_client (Some (overtaken (Some 0) 7)) (ComponentInteraction 1 ''t'')
          (Some 0) 4 None [] open_world) = Inr (Some ErrInteractionAlreadyReplied)
   \<and> stored (mem (snd (respond accepting_client (Some (overtaken (Some 0) 7))
          (ComponentInteraction 1 ''t'') (Some 0) 4 None [] open_world))) (Some 0) = Some (Some 7)"
proof -
  have t: "transport accepting_client (Some (overtaken (Some 0) 7)) (ComponentInteraction 1 ''t'')
             [] \<lparr>Type = 4, Data = None\<rparr> (mem open_world) =
           (Inr None, \<lparr>cells = [7], states = [\<lparr>ResponseTypeValue = Some 0\<rparr>]\<rparr>)"
    by (simp add: transport_def overtaken_def commit_def open_world_def load_state_def
        new_cell_def store_state_def)
  have h: "stored \<lparr>cells = [7], states = [\<lparr>ResponseTypeValue = Some 0\<rparr>]\<rparr> (Some 0) =
           Some (Some 7)"
    by (simp add: stored_def load_state_def load_cell_def)
  from respond_lost_race [OF stored_open_world t h]
  show ?thesis by auto
qed

subsection \<open>The recorded kind is written once\<close>






subsection \<open>The dispatch\<close>

lemma handleInteraction_state:
  "handleInteraction c n k rf i w = (effs, w') \<Longrightarrow>
   stored (mem w') (Some (length (states (mem w)))) = Some None"
  by (auto simp: handleInteraction_def NewInteractionResponseState_def new_state_def
      stored_def load_state_def Let_def)

lemma handleInteraction_events:
  "handleInteraction c n k rf i w = (effs, w') \<Longrightarrow> e \<in> set (dispatched effs) \<Longrightarrow>
   ResponseState e = Some (length (states (mem w)))
   \<and> Respond e = respond c rf i (Some (length (states (mem w))))
   \<and> Interaction e = i
   \<and> GenericEvent e = NewGenericEvent c n k"
  by (cases i)
    (auto simp: handleInteraction_def NewInteractionResponseState_def new_state_def Let_def)

lemma handleInteraction_shape:
  "handleInteraction c n k rf i w = (effs, w') \<Longrightarrow>
   (\<exists>g rest. effs = DispatchEvent g # rest \<and> is_generic g)
   \<and> length effs = 2
   \<and> length (filter is_generic (dispatched effs)) = 1
   \<and> length (filter (\<lambda>e. \<not> is_generic e) (dispatched effs)) = (if is_known i then 1 else 0)
   \<and> (\<forall>e \<in> set (dispatched effs). \<not> is_generic e \<longrightarrow> matches e i)
   \<and> length (logged effs) = (if is_known i then 0 else 1)"
  by (cases i)
    (auto simp: handleInteraction_def NewInteractionResponseState_def new_state_def Let_def)

text \<open>C6. For every interaction, \<^verbatim>\<open>handleInteraction\<close> makes two calls. The first
  dispatches the generic \<^verbatim>\<open>InteractionCreate\<close>, and it is the only generic dispatch. For
  an interaction of one of the four variants the second dispatches the event of that
  variant and nothing is logged; for any other interaction no variant event is dispatched
  and the second call is the one report to the logger. Every dispatched event carries
  the same pointer to the response state, which is a new state that records nothing, and
  the same responder, bound to that state.\<close>

theorem handleInteraction_dispatch:
  assumes "handleInteraction c n k rf i w = (effs, w')"
  shows "(\<exists>g rest. effs = DispatchEvent g # rest \<and> is_generic g)
       \<and> length effs = 2
       \<and> length (filter is_generic (dispatched effs)) = 1
       \<and> length (filter (\<lambda>e. \<not> is_generic e) (dispatched effs)) = (if is_known i then 1 else 0)
       \<and> (\<forall>e \<in> set (dispatched effs). \<not> is_generic e \<longrightarrow> matches e i)
       \<and> length (logged effs) = (if is_known i then 0 else 1)
       \<and> (\<forall>e \<in> set (dispatched effs). \<forall>e' \<in> set (dispatched effs).
             ResponseState e = ResponseState e' \<and> Respond e = Respond e')
       \<and> (\<forall>e \<in> set (dispatched effs).
             ResponseState e = Some (length (states (mem w)))
           \<and> Respond e = respond c rf i (ResponseState e))
       \<and> stored (mem w') (Some (length (states (mem w)))) = Some None"
  using handleInteraction_shape [OF assms] handleInteraction_state [OF assms]
    handleInteraction_events [OF assms]
  by simp

theorem handleInteraction_dispatch_witness:
  "length (filter is_generic (dispatched (fst (handleInteraction accepting_client 42 0 None
      command_interaction empty_world)))) = 1
   \<and> length (filter (\<lambda>e. \<not> is_generic e) (dispatched (fst (handleInteraction accepting_client
      42 0 None command_interaction empty_world)))) = 1
   \<and> length (logged (fst (handleInteraction accepting_client 42 0 None
      (OtherInteraction ''discord.PingInteraction'' 1 ''token'') empty_world))) = 1
   \<and> length (dispatched (fst (handleInteraction accepting_client 42 0 None
      (OtherInteraction ''discord.PingInteraction'' 1 ''token'') empty_world))) = 1"
proof -
  have a: "handleInteraction accepting_client 42 0 None command_interaction empty_world =
      (fst (handleInteraction accepting_client 42 0 None command_interaction empty_world),
       snd (handleInteraction accepting_client 42 0 None command_interaction empty_world))"
    by simp
  have b: "handleInteraction accepting_client 42 0 None
             (OtherInteraction ''discord.PingInteraction'' 1 ''token'') empty_world =
      (fst (handleInteraction accepting_client 42 0 None
             (OtherInteraction ''discord.PingInteraction'' 1 ''token'') empty_world),
       snd (handleInteraction accepting_client 42 0 None
             (OtherInteraction ''discord.PingInteraction'' 1 ''token'') empty_world))"
    by simp
  have d: "dispatched (fst (handleInteraction accepting_client 42 0 None
             (OtherInteraction ''discord.PingInteraction'' 1 ''token'') empty_world)) =
           filter is_generic (dispatched (fst (handleInteraction accepting_client 42 0 None
             (OtherInteraction ''discord.PingInteraction'' 1 ''token'') empty_world)))"
    by (simp add: handleInteraction_def NewInteractionResponseState_def new_state_def Let_def)
  from handleInteraction_dispatch [OF a] handleInteraction_dispatch [OF b] d
  show ?thesis by (simp add: command_interaction_def)
qed

subsection \<open>Two sends on one interaction\<close>

lemma respond_twice:
  assumes "stored (mem w) s = Some None"
    and "transport c rf i opts1 \<lparr>Type = k1, Data = dat1\<rparr> (mem w) = (Inr None, h)"
    and "stored h s = Some None"
  shows "\<exists>w1 w2. respond c rf i s k1 dat1 opts1 w = (Inr None, w1)
           \<and> respond c' rf' i' s k2 dat2 opts2 w1 = (Inr (Some ErrInteractionAlreadyReplied), w2)
           \<and> stored (mem w2) s = Some (Some k1)"
proof -
  from respond_empty_success [OF assms] obtain w1 where
    first: "respond c rf i s k1 dat1 opts1 w = (Inr None, w1)"
    and st: "stored (mem w1) s = Some (Some k1)"
    by blast
  from respond_replied [OF st] stored_new_cell [OF st, of k1] first show ?thesis
    by simp
qed

text \<open>C1. Take the events that \<^verbatim>\<open>handleInteraction\<close> dispatches for an interaction,
  any two of them (the generic one, the variant one, or the same one twice), and any two
  kinds. Two sends in a row, the first through one event and the second through the
  other, where the outbound call of the first send succeeds and leaves the response state
  alone, return nil for the first and \<^verbatim>\<open>ErrInteractionAlreadyReplied\<close> for the second,
  whichever kind and whichever event comes first.\<close>

theorem send_twice_one_success:
  assumes "handleInteraction c n sh rf i w = (effs, w0)"
    and "e1 \<in> set (dispatched effs)" and "e2 \<in> set (dispatched effs)"
    and "transport c rf i opts1 \<lparr>Type = k1, Data = dat1\<rparr> (mem w0) = (Inr None, h)"
    and "stored h (ResponseState e1) = Some None"
  shows "\<exists>w1 w2. Respond e1 k1 dat1 opts1 w0 = (Inr None, w1)
           \<and> Respond e2 k2 dat2 opts2 w1 = (Inr (Some ErrInteractionAlreadyReplied), w2)
           \<and> stored (mem w2) (ResponseState e2) = Some (Some k1)"
proof -
  let ?s = "Some (length (states (mem w)))"
  from handleInteraction_events [OF assms(1,2)] handleInteraction_events [OF assms(1,3)]
  have e: "Respond e1 = respond c rf i ?s" "Respond e2 = respond c rf i ?s"
    "ResponseState e1 = ?s" "ResponseState e2 = ?s"
    by simp_all
  from assms(5) have h: "stored h ?s = Some None"
    by (simp add: e)
  from respond_twice [OF handleInteraction_state [OF assms(1)] assms(4) h]
  show ?thesis by (simp add: e)
qed

theorem send_twice_one_success_witness:
  "fst (respond accepting_client None command_interaction (Some 0) 5 None []
          (snd (handleInteraction accepting_client 42 0 None command_interaction empty_world)))
     = Inr None
   \<and> fst (respond accepting_client None command_interaction (Some 0) 2 None []
          (snd (respond accepting_client None command_interaction (Some 0) 5 None []
             (snd (handleInteraction accepting_client 42 0 None command_interaction
                     empty_world)))))
     = Inr (Some ErrInteractionAlreadyReplied)"
proof -
  let ?g = "NewGenericEvent accepting_client 42 0"
  let ?r = "respond accepting_client None command_interaction (Some 0)"
  let ?e1 = "ApplicationCommandInteractionCreate ?g command_interaction ?r (Some 0)"
  let ?e2 = "InteractionCreate ?g command_interaction ?r (Some 0)"
  let ?w0 = "\<lparr>mem = \<lparr>cells = [], states = [\<lparr>ResponseTypeValue = None\<rparr>]\<rparr>, outbound = []\<rparr>"
  have a: "handleInteraction accepting_client 42 0 None command_interaction empty_world =
             ([DispatchEvent ?e2, DispatchEvent ?e1], ?w0)"
    by (simp add: handleInteraction_def NewInteractionResponseState_def new_state_def
        empty_world_def command_interaction_def Let_def)
  have m1: "?e1 \<in> set (dispatched [DispatchEvent ?e2, DispatchEvent ?e1])"
    by simp
  have m2: "?e2 \<in> set (dispatched [DispatchEvent ?e2, DispatchEvent ?e1])"
    by simp
  have t: "transport accepting_client None command_interaction [] \<lparr>Type = 5, Data = None\<rparr>
             (mem ?w0) = (Inr None, mem ?w0)"
    by (simp add: transport_def accepting_client_def)
  have st: "stored (mem ?w0) (ResponseState ?e1) = Some None"
    by (simp add: stored_def load_state_def)
  from send_twice_one_success [OF a m1 m2 t st, of 2 None "[]"]
  obtain w1 w2 where
    "?r 5 None [] ?w0 = (Inr None, w1)"
    "?r 2 None [] w1 = (Inr (Some ErrInteractionAlreadyReplied), w2)"
    by auto
  then show ?thesis by (simp add: a)
qed

subsection \<open>The autocomplete event\<close>

text \<open>C7, as the specification states it, fails: \<^verbatim>\<open>Acknowledge\<close> is declared on
  \<^verbatim>\<open>*AutocompleteInteractionCreate\<close> too, is not \<^verbatim>\<open>AutocompleteResult\<close>, and a call of it
  replies: it returns nil and records the acknowledge kind.\<close>

theorem autocomplete_only_result_counterexample:
  "AcknowledgeM \<in> set (reply_methods autocomplete_event)
   \<and> AcknowledgeM \<noteq> AutocompleteResultM
   \<and> fst (AutocompleteInteractionCreate_Acknowledge discord_values autocomplete_event []
            open_world) = Inr None
   \<and> stored (mem (snd (AutocompleteInteractionCreate_Acknowledge discord_values
            autocomplete_event [] open_world))) (Some 0) =
       Some (Some (InteractionResponseTypeAcknowledge discord_values))"
proof -
  have t: "transport accepting_client None (AutocompleteInteraction 1 ''token'') []
             \<lparr>Type = InteractionResponseTypeAcknowledge discord_values, Data = None\<rparr>
             (mem open_world) = (Inr None, mem open_world)"
    by (simp add: transport_def accepting_client_def)
  from respond_empty_success [OF stored_open_world t stored_open_world]
  obtain w' where
    r: "respond accepting_client None (AutocompleteInteraction 1 ''token'') (Some 0)
          (InteractionResponseTypeAcknowledge discord_values) None [] open_world = (Inr None, w')"
    and st: "stored (mem w') (Some 0) =
          Some (Some (InteractionResponseTypeAcknowledge discord_values))"
    by blast
  have m: "AcknowledgeM \<in> set (reply_methods autocomplete_event)"
    by (simp add: autocomplete_event_def)
  have a: "AutocompleteInteractionCreate_Acknowledge discord_values autocomplete_event []
             open_world = (Inr None, w')"
    by (simp add: autocomplete_event_def AutocompleteInteractionCreate_Acknowledge_def r)
  from m a st show ?thesis by simp
qed

text \<open>C7, amended. The reply methods of the autocomplete event are \<^verbatim>\<open>Acknowledge\<close> and
  \<^verbatim>\<open>AutocompleteResult\<close> and no other: none of \<^verbatim>\<open>CreateMessage\<close>,
  \<^verbatim>\<open>DeferCreateMessage\<close>, \<^verbatim>\<open>UpdateMessage\<close>, \<^verbatim>\<open>DeferUpdateMessage\<close>, \<^verbatim>\<open>Modal\<close>,
  \<^verbatim>\<open>LaunchActivity\<close> is declared on it. Two calls of \<^verbatim>\<open>AutocompleteResult\<close> in a row, on
  an event whose responder is bound to the event's response state with nothing recorded,
  where the outbound call of the first succeeds and leaves the state alone, return nil
  and then \<^verbatim>\<open>ErrInteractionAlreadyReplied\<close>.\<close>

theorem autocomplete_reply_methods:
  assumes "e = AutocompleteInteractionCreate g i (respond c rf j s) s"
    and "stored (mem w) s = Some None"
    and "transport c rf j opts1
           \<lparr>Type = InteractionResponseTypeAutocompleteResult d,
            Data = Some (AutocompleteResult choices1)\<rparr> (mem w) = (Inr None, h)"
    and "stored h s = Some None"
  shows "set (reply_methods e) = {AcknowledgeM, AutocompleteResultM}
       \<and> CreateMessageM \<notin> set (reply_methods e)
       \<and> DeferCreateMessageM \<notin> set (reply_methods e)
       \<and> UpdateMessageM \<notin> set (reply_methods e)
       \<and> DeferUpdateMessageM \<notin> set (reply_methods e)
       \<and> ModalM \<notin> set (reply_methods e)
       \<and> LaunchActivityM \<notin> set (reply_methods e)
       \<and> (\<exists>w1 w2.
            AutocompleteInteractionCreate_AutocompleteResult d e choices1 opts1 w = (Inr None, w1)
          \<and> AutocompleteInteractionCreate_AutocompleteResult d e choices2 opts2 w1 =
              (Inr (Some ErrInteractionAlreadyReplied), w2))"
proof -
  from respond_twice [OF assms(2,3,4), of c rf j
      "InteractionResponseTypeAutocompleteResult d" "Some (AutocompleteResult choices2)" opts2]
  have two: "\<exists>w1 w2.
            AutocompleteInteractionCreate_AutocompleteResult d e choices1 opts1 w = (Inr None, w1)
          \<and> AutocompleteInteractionCreate_AutocompleteResult d e choices2 opts2 w1 =
              (Inr (Some ErrInteractionAlreadyReplied), w2)"
    unfolding AutocompleteInteractionCreate_AutocompleteResult_def assms(1) Event.sel
    by blast
  have ms: "reply_methods e = [AcknowledgeM, AutocompleteResultM]"
    by (simp add: assms(1))
  from two show ?thesis
    unfolding ms by simp
qed

theorem autocomplete_reply_methods_witness:
  "set (reply_methods autocomplete_event) = {AcknowledgeM, AutocompleteResultM}
   \<and> fst (AutocompleteInteractionCreate_AutocompleteResult discord_values autocomplete_event
            [''a'', ''b''] [] open_world) = Inr None
   \<and> fst (AutocompleteInteractionCreate_AutocompleteResult discord_values autocomplete_event
            [''c''] []
            (snd (AutocompleteInteractionCreate_AutocompleteResult discord_values
                    autocomplete_event [''a'', ''b''] [] open_world)))
       = Inr (Some ErrInteractionAlreadyReplied)"
proof -
  have t: "transport accepting_client None (AutocompleteInteraction 1 ''token'') []
             \<lparr>Type = InteractionResponseTypeAutocompleteResult discord_values,
              Data = Some (AutocompleteResult [''a'', ''b''])\<rparr> (mem open_world) =
           (Inr None, mem open_world)"
    by (simp add: transport_def accepting_client_def)
  from autocomplete_reply_methods [OF autocomplete_event_def stored_open_world t
      stored_open_world, of "[''c'']" "[]"]
  obtain w1 w2 where
    "set (reply_methods autocomplete_event) = {AcknowledgeM, AutocompleteResultM}"
    "AutocompleteInteractionCreate_AutocompleteResult discord_values autocomplete_event
       [''a'', ''b''] [] open_world = (Inr None, w1)"
    "AutocompleteInteractionCreate_AutocompleteResult discord_values autocomplete_event
       [''c''] [] w1 = (Inr (Some ErrInteractionAlreadyReplied), w2)"
    by blast
  then show ?thesis by simp
qed

end
